theory Spec2Isabelle
  imports Main
begin

section \<open>The connection registry of sveltekit-ws (class WebSocketManager)\<close>

subsection \<open>The JavaScript Map holding the connections\<close>

text \<open>
  \<^verbatim>\<open>private connections: Map<string, WSConnection> = new Map()\<close>.
  A JavaScript Map keeps its entries in insertion order and \<^verbatim>\<open>forEach\<close> visits them in
  that order, so the Map is an association list. \<^verbatim>\<open>set\<close> on a key already present
  replaces the value in place, \<^verbatim>\<open>delete\<close> reports whether the key was present.
  A Map holds a key once: the lists that stand for Maps have distinct keys, and
  \<open>Map_set\<close> and \<open>Map_delete\<close> keep them distinct.
\<close>

fun Map_get :: "('k \<times> 'v) list \<Rightarrow> 'k \<Rightarrow> 'v option" where
  "Map_get [] k = None"
| "Map_get ((k', v) # m) k = (if k' = k then Some v else Map_get m k)"

fun Map_set :: "'k \<Rightarrow> 'v \<Rightarrow> ('k \<times> 'v) list \<Rightarrow> ('k \<times> 'v) list" where
  "Map_set k v [] = [(k, v)]"
| "Map_set k v ((k', v') # m) = (if k' = k then (k, v) # m else (k', v') # Map_set k v m)"

definition Map_has :: "('k \<times> 'v) list \<Rightarrow> 'k \<Rightarrow> bool" where
  "Map_has m k = (case Map_get m k of None \<Rightarrow> False | Some v \<Rightarrow> True)"

definition Map_delete :: "'k \<Rightarrow> ('k \<times> 'v) list \<Rightarrow> bool \<times> ('k \<times> 'v) list" where
  "Map_delete k m = (Map_has m k, filter (\<lambda>e. fst e \<noteq> k) m)"

definition Map_size :: "('k \<times> 'v) list \<Rightarrow> nat" where
  "Map_size m = length m"

subsection \<open>Data model (types.ts)\<close>

text \<open>
  A \<^verbatim>\<open>WebSocket\<close> of the \<^verbatim>\<open>ws\<close> package is an object outside this repository. The
  registry holds references to such objects; a reference is a number, and the object it
  names lives in the store \<open>sockets\<close> of the world. Of the object the manager reads
  \<^verbatim>\<open>readyState\<close> and calls \<^verbatim>\<open>send\<close> and \<^verbatim>\<open>close\<close>, each of which may throw.
\<close>

type_synonym sock = nat

record WebSocket =
  readyState :: nat
  send_throws :: bool
  close_throws :: bool

record 'm WSConnection =
  ws :: sock
  id' :: string
  metadata :: "'m option"

record 'd WSMessage =
  type :: string
  data :: 'd
  timestamp :: "int option"

datatype error = TypeError | TransportError

datatype event =
    Sent sock string
  | SendThrew sock string
  | Closed sock
  | CloseThrew sock
  | ConsoleError string

text \<open>
  The world is the manager's own field \<open>connections\<close> together with what the manager
  touches outside itself: the socket objects, the results \<^verbatim>\<open>randomUUID()\<close> and
  \<^verbatim>\<open>Date.now()\<close> will give (the \<open>n\<close>-th call returns \<open>uuids n\<close>, resp. \<open>clock n\<close>), and
  the trace of calls made on sockets and on the console.
\<close>

record 'm world =
  connections :: "(string \<times> 'm WSConnection) list"
  sockets :: "sock \<Rightarrow> WebSocket"
  uuids :: "nat \<Rightarrow> string"
  uuid_calls :: nat
  clock :: "nat \<Rightarrow> int"
  clock_reads :: nat
  trace :: "event list"

subsection \<open>The platform calls\<close>

definition randomUUID :: "'m world \<Rightarrow> string \<times> 'm world" where
  "randomUUID w = (uuids w (uuid_calls w), w\<lparr>uuid_calls := Suc (uuid_calls w)\<rparr>)"

definition Date_now :: "'m world \<Rightarrow> int \<times> 'm world" where
  "Date_now w = (clock w (clock_reads w), w\<lparr>clock_reads := Suc (clock_reads w)\<rparr>)"

definition ws_send :: "sock \<Rightarrow> string \<Rightarrow> 'm world \<Rightarrow> (error + unit) \<times> 'm world" where
  "ws_send s payload w =
     (if send_throws (sockets w s)
      then (Inl TransportError, w\<lparr>trace := trace w @ [SendThrew s payload]\<rparr>)
      else (Inr (), w\<lparr>trace := trace w @ [Sent s payload]\<rparr>))"

definition ws_close :: "sock \<Rightarrow> 'm world \<Rightarrow> (error + unit) \<times> 'm world" where
  "ws_close s w =
     (if close_throws (sockets w s)
      then (Inl TransportError, w\<lparr>trace := trace w @ [CloseThrew s]\<rparr>)
      else (Inr (), w\<lparr>trace := trace w @ [Closed s]\<rparr>))"

definition console_error :: "string \<Rightarrow> 'm world \<Rightarrow> 'm world" where
  "console_error msg w = w\<lparr>trace := trace w @ [ConsoleError msg]\<rparr>"

subsection \<open>The manager (manager.ts)\<close>

definition addConnection :: "sock \<Rightarrow> 'm option \<Rightarrow> 'm world \<Rightarrow> 'm WSConnection \<times> 'm world" where
  "addConnection s md w =
     (let (i, w1) = randomUUID w;
          connection = \<lparr>ws = s, id' = i, metadata = md\<rparr>
      in (connection, w1\<lparr>connections := Map_set i connection (connections w1)\<rparr>))"

definition getConnections :: "'m world \<Rightarrow> (string \<times> 'm WSConnection) list" where
  "getConnections w = connections w"

definition getConnection :: "string \<Rightarrow> 'm world \<Rightarrow> 'm WSConnection option" where
  "getConnection i w = Map_get (connections w) i"

text \<open>
  \<^verbatim>\<open>message.timestamp || Date.now()\<close>: the right operand is evaluated only when the left
  one is falsy, that is when the timestamp is undefined or is the number 0. Timestamps
  are integers (epoch milliseconds), an omitted one is \<open>None\<close>.
\<close>

definition timestamp_or_now :: "'d WSMessage \<Rightarrow> 'm world \<Rightarrow> int \<times> 'm world" where
  "timestamp_or_now message w =
     (case timestamp message of
        None \<Rightarrow> Date_now w
      | Some t \<Rightarrow> if t = 0 then Date_now w else (t, w))"

text \<open>
  \<^verbatim>\<open>JSON.stringify\<close> is a parameter: it returns the text of the object
  \<^verbatim>\<open>{...message, timestamp: t}\<close>, or throws a TypeError (\<open>None\<close>) on data it cannot
  serialise. The body of the \<^verbatim>\<open>try\<close> block of \<^verbatim>\<open>send\<close> comes first, then \<^verbatim>\<open>send\<close> with
  its \<^verbatim>\<open>catch\<close>.
\<close>

definition send_try ::
  "('d WSMessage \<Rightarrow> string option) \<Rightarrow> 'm WSConnection \<Rightarrow> 'd WSMessage \<Rightarrow> 'm world
     \<Rightarrow> (error + bool) \<times> 'm world" where
  "send_try JSON_stringify connection message w =
     (let (t, w1) = timestamp_or_now message w in
      case JSON_stringify (message\<lparr>timestamp := Some t\<rparr>) of
        None \<Rightarrow> (Inl TypeError, w1)
      | Some payload \<Rightarrow>
          (case ws_send (ws connection) payload w1 of
             (Inl e, w2) \<Rightarrow> (Inl e, w2)
           | (Inr u, w2) \<Rightarrow> (Inr True, w2)))"

definition send ::
  "('d WSMessage \<Rightarrow> string option) \<Rightarrow> string \<Rightarrow> 'd WSMessage \<Rightarrow> 'm world
     \<Rightarrow> (error + bool) \<times> 'm world" where
  "send JSON_stringify i message w =
     (case Map_get (connections w) i of
        None \<Rightarrow> (Inr False, w)
      | Some connection \<Rightarrow>
          if readyState (sockets w (ws connection)) \<noteq> 1 then (Inr False, w)
          else
            (case send_try JSON_stringify connection message w of
               (Inr r, w') \<Rightarrow> (Inr r, w')
             | (Inl e, w') \<Rightarrow>
                 (Inr False, console_error (''Failed to send message to '' @ i @ '':'') w')))"

text \<open>
  \<^verbatim>\<open>Map.prototype.forEach\<close>. The callbacks the manager passes never change the Map, so
  visiting the entries present at the call, in order, is what the loop does.
\<close>

fun forEach :: "('k \<times> 'v \<Rightarrow> 's \<Rightarrow> 's) \<Rightarrow> ('k \<times> 'v) list \<Rightarrow> 's \<Rightarrow> 's" where
  "forEach f [] w = w"
| "forEach f (e # m) w = forEach f m (f e w)"

definition broadcast_each ::
  "string \<Rightarrow> string list \<Rightarrow> string \<times> 'm WSConnection \<Rightarrow> 'm world \<Rightarrow> 'm world" where
  "broadcast_each payload exclude e w =
     (let i = fst e; connection = snd e in
      if List.member exclude i then w
      else if readyState (sockets w (ws connection)) = 1 then
        (case ws_send (ws connection) payload w of
           (Inl err, w') \<Rightarrow> console_error (''Failed to broadcast to '' @ i @ '':'') w'
         | (Inr u, w') \<Rightarrow> w')
      else w)"

text \<open>
  In \<^verbatim>\<open>broadcast\<close> the payload is built before the loop and outside any \<^verbatim>\<open>try\<close>: a
  TypeError of \<^verbatim>\<open>JSON.stringify\<close> leaves the method.
\<close>

definition broadcast ::
  "('d WSMessage \<Rightarrow> string option) \<Rightarrow> 'd WSMessage \<Rightarrow> string list \<Rightarrow> 'm world
     \<Rightarrow> (error + unit) \<times> 'm world" where
  "broadcast JSON_stringify message exclude w =
     (let (t, w1) = timestamp_or_now message w in
      case JSON_stringify (message\<lparr>timestamp := Some t\<rparr>) of
        None \<Rightarrow> (Inl TypeError, w1)
      | Some payload \<Rightarrow>
          (Inr (), forEach (broadcast_each payload exclude) (connections w1) w1))"

definition removeConnection :: "string \<Rightarrow> 'm world \<Rightarrow> bool \<times> 'm world" where
  "removeConnection i w =
     (let (r, m) = Map_delete i (connections w) in (r, w\<lparr>connections := m\<rparr>))"

definition disconnect_try ::
  "'m WSConnection \<Rightarrow> string \<Rightarrow> 'm world \<Rightarrow> (error + bool) \<times> 'm world" where
  "disconnect_try connection i w =
     (case ws_close (ws connection) w of
        (Inl e, w1) \<Rightarrow> (Inl e, w1)
      | (Inr u, w1) \<Rightarrow>
          (let (r, m) = Map_delete i (connections w1)
           in (Inr True, w1\<lparr>connections := m\<rparr>)))"

definition disconnect :: "string \<Rightarrow> 'm world \<Rightarrow> (error + bool) \<times> 'm world" where
  "disconnect i w =
     (case Map_get (connections w) i of
        None \<Rightarrow> (Inr False, w)
      | Some connection \<Rightarrow>
          (case disconnect_try connection i w of
             (Inr r, w') \<Rightarrow> (Inr r, w')
           | (Inl e, w') \<Rightarrow>
               (Inr False, console_error (''Failed to disconnect '' @ i @ '':'') w')))"

definition size' :: "'m world \<Rightarrow> nat" where
  "size' w = Map_size (connections w)"

definition clear_each :: "string \<times> 'm WSConnection \<Rightarrow> 'm world \<Rightarrow> 'm world" where
  "clear_each e w =
     (case ws_close (ws (snd e)) w of
        (Inl err, w') \<Rightarrow> w'
      | (Inr u, w') \<Rightarrow> w')"

definition clear :: "'m world \<Rightarrow> 'm world" where
  "clear w = (forEach clear_each (connections w) w)\<lparr>connections := []\<rparr>"

subsection \<open>Reading the trace\<close>

text \<open>
  The calls of \<^verbatim>\<open>ws.send\<close> that were made (whether they returned or threw), the frames
  that were written, and the calls of \<^verbatim>\<open>ws.close\<close> that were made.
\<close>

fun write_attempts :: "event list \<Rightarrow> (sock \<times> string) list" where
  "write_attempts [] = []"
| "write_attempts (Sent s p # es) = (s, p) # write_attempts es"
| "write_attempts (SendThrew s p # es) = (s, p) # write_attempts es"
| "write_attempts (e # es) = write_attempts es"

fun delivered :: "event list \<Rightarrow> (sock \<times> string) list" where
  "delivered [] = []"
| "delivered (Sent s p # es) = (s, p) # delivered es"
| "delivered (e # es) = delivered es"

fun close_attempts :: "event list \<Rightarrow> sock list" where
  "close_attempts [] = []"
| "close_attempts (Closed s # es) = s # close_attempts es"
| "close_attempts (CloseThrew s # es) = s # close_attempts es"
| "close_attempts (e # es) = close_attempts es"

text \<open>
  The connections a broadcast is for: not excluded, and open when the broadcast starts.
\<close>

definition recipients :: "string list \<Rightarrow> 'm world \<Rightarrow> (string \<times> 'm WSConnection) list" where
  "recipients exclude w =
     filter (\<lambda>e. \<not> List.member exclude (fst e) \<and> readyState (sockets w (ws (snd e))) = 1)
       (connections w)"

subsection \<open>Sequences of registry operations\<close>

datatype 'm op =
    AddConnection sock "'m option"
  | RemoveConnection string
  | Disconnect string

text \<open>
  \<open>run ops w\<close> performs the operations in order and returns the number of
  \<^verbatim>\<open>addConnection\<close> calls, the number of \<^verbatim>\<open>removeConnection\<close> and \<^verbatim>\<open>disconnect\<close>
  calls that returned \<^verbatim>\<open>true\<close>, and the final world.
\<close>

fun run :: "'m op list \<Rightarrow> 'm world \<Rightarrow> nat \<times> nat \<times> 'm world" where
  "run [] w = (0, 0, w)"
| "run (AddConnection s md # ops) w =
     (let (c, w1) = addConnection s md w; (a, r, w') = run ops w1
      in (Suc a, r, w'))"
| "run (RemoveConnection i # ops) w =
     (let (b, w1) = removeConnection i w; (a, r, w') = run ops w1
      in (a, if b then Suc r else r, w'))"
| "run (Disconnect i # ops) w =
     (let (b, w1) = disconnect i w; (a, r, w') = run ops w1
      in (a, if b = Inr True then Suc r else r, w'))"

subsection \<open>The broadcast of the specification\<close>

text \<open>
  Section 3 of the specification lets the stamping of an omitted timestamp happen once
  for every recipient of a broadcast, at that recipient's send time. Written out, that
  is a \<^verbatim>\<open>send\<close> to every connection that is not excluded. It is here to be compared
  with \<open>broadcast\<close>, which is the code.
\<close>

definition broadcast_stamping_each_recipient ::
  "('d WSMessage \<Rightarrow> string option) \<Rightarrow> 'd WSMessage \<Rightarrow> string list \<Rightarrow> 'm world \<Rightarrow> 'm world" where
  "broadcast_stamping_each_recipient JSON_stringify message exclude w =
     forEach (\<lambda>e w'. if List.member exclude (fst e) then w'
                      else snd (send JSON_stringify (fst e) message w'))
       (connections w) w"

subsection \<open>Concrete inputs\<close>

text \<open>
  The inputs on which the model is evaluated. \<open>stringify_example\<close> is the serialiser
  given for \<^verbatim>\<open>JSON.stringify\<close> there: it writes the three fields of a frame with numeric
  data, numbers in decimal, and leaves the quotation marks of JSON out. Sockets 2, 3 and
  4 are the faulty ones: \<^verbatim>\<open>send\<close> throws on 2, 3 is closed (\<^verbatim>\<open>readyState\<close> 3) and
  \<^verbatim>\<open>close\<close> throws on 4; every other socket is open and healthy.
\<close>

function decimal :: "nat \<Rightarrow> string" where
  "decimal n =
     (if n < 10 then [''0123456789'' ! n]
      else decimal (n div 10) @ [''0123456789'' ! (n mod 10)])"
  by pat_completeness auto
termination
  by (relation "measure (\<lambda>n. n)") auto

declare decimal.simps [simp del]

definition show_int :: "int \<Rightarrow> string" where
  "show_int k = (if k < 0 then CHR ''-'' # decimal (nat (- k)) else decimal (nat k))"

definition stringify_example :: "int WSMessage \<Rightarrow> string option" where
  "stringify_example m =
     Some (''{type:'' @ type m @ '',data:'' @ show_int (data m) @ '',timestamp:''
           @ (case timestamp m of None \<Rightarrow> ''undefined'' | Some t \<Rightarrow> show_int t) @ ''}'')"

text \<open>
  \<^verbatim>\<open>data\<close> has the type \<^verbatim>\<open>any\<close>, so a caller can pass a BigInt, on which
  \<^verbatim>\<open>JSON.stringify\<close> throws a TypeError. \<open>stringify_number\<close> is the serialiser for data
  that is a number or a BigInt.
\<close>

datatype js_numeric = JSNumber int | JSBigInt int

definition stringify_number :: "js_numeric WSMessage \<Rightarrow> string option" where
  "stringify_number m =
     (case data m of
        JSBigInt k \<Rightarrow> None
      | JSNumber k \<Rightarrow>
          Some (''{type:'' @ type m @ '',data:'' @ show_int k @ '',timestamp:''
                @ (case timestamp m of None \<Rightarrow> ''undefined'' | Some t \<Rightarrow> show_int t)
                @ ''}''))"

definition example_sockets :: "sock \<Rightarrow> WebSocket" where
  "example_sockets s =
     \<lparr>readyState = (if s = 3 then 3 else 1), send_throws = (s = 2), close_throws = (s = 4)\<rparr>"

definition conn :: "string \<Rightarrow> sock \<Rightarrow> string \<times> unit WSConnection" where
  "conn i s = (i, \<lparr>ws = s, id' = i, metadata = None\<rparr>)"

definition example_world :: "(string \<times> unit WSConnection) list \<Rightarrow> unit world" where
  "example_world m =
     \<lparr>connections = m, sockets = example_sockets,
      uuids = (\<lambda>n. ''uuid-'' @ decimal n), uuid_calls = 0,
      clock = (\<lambda>n. 1700000000000 + int n), clock_reads = 0,
      trace = []\<rparr>"

section \<open>Properties\<close>

subsection \<open>The Map\<close>

lemma Map_get_Map_set_same: "Map_get (Map_set k v m) k = Some v"
  by (induction m) auto

lemma Map_get_Map_set_other: "k' \<noteq> k \<Longrightarrow> Map_get (Map_set k v m) k' = Map_get m k'"
  by (induction m) auto

lemma Map_get_filter_same: "Map_get (filter (\<lambda>e. fst e \<noteq> k) m) k = None"
  by (induction m) auto

lemma Map_get_filter_other: "k' \<noteq> k \<Longrightarrow> Map_get (filter (\<lambda>e. fst e \<noteq> k) m) k' = Map_get m k'"
  by (induction m) auto

lemma Map_get_None_iff: "Map_get m k = None \<longleftrightarrow> k \<notin> fst ` set m"
proof (induction m)
  case Nil
  show ?case by simp
next
  case (Cons e m)
  then show ?case by (cases e) simp
qed

lemma filter_absent: "Map_get m k = None \<Longrightarrow> filter (\<lambda>e. fst e \<noteq> k) m = m"
  by (induction m) (auto split: if_splits)

lemma length_Map_set_absent: "Map_get m k = None \<Longrightarrow> length (Map_set k v m) = Suc (length m)"
  by (induction m) (auto split: if_splits)

lemma keys_Map_set: "fst ` set (Map_set k v m) = insert k (fst ` set m)"
proof (induction m)
  case Nil
  show ?case by simp
next
  case (Cons e m)
  then show ?case by (cases e) (simp add: insert_commute)
qed

lemma distinct_Map_set: "distinct (map fst m) \<Longrightarrow> distinct (map fst (Map_set k v m))"
proof (induction m)
  case Nil
  show ?case by simp
next
  case (Cons e m)
  then show ?case by (cases e) (auto simp: keys_Map_set)
qed

lemma length_filter_present:
  "distinct (map fst m) \<Longrightarrow> Map_get m k = Some v \<Longrightarrow> Suc (length (filter (\<lambda>e. fst e \<noteq> k) m)) = length m"
proof (induction m)
  case Nil
  then show ?case by simp
next
  case (Cons e m)
  show ?case
  proof (cases "fst e = k")
    case True
    with Cons.prems have "k \<notin> fst ` set m" by (cases e) auto
    then have "Map_get m k = None" by (simp add: Map_get_None_iff)
    then have "filter (\<lambda>e. fst e \<noteq> k) m = m" by (rule filter_absent)
    with True show ?thesis by simp
  next
    case False
    with Cons show ?thesis by (cases e) auto
  qed
qed

subsection \<open>Reading a trace in pieces\<close>

lemma close_attempts_append: "close_attempts (xs @ ys) = close_attempts xs @ close_attempts ys"
  by (induction xs rule: close_attempts.induct) simp_all

lemma write_attempts_append: "write_attempts (xs @ ys) = write_attempts xs @ write_attempts ys"
  by (induction xs rule: write_attempts.induct) simp_all

lemma delivered_append: "delivered (xs @ ys) = delivered xs @ delivered ys"
  by (induction xs rule: delivered.induct) simp_all

subsection \<open>send\<close>

text \<open>
  C3. When the id is not registered, or the registered connection's \<^verbatim>\<open>readyState\<close> is not
  1 (open), \<^verbatim>\<open>send\<close> returns \<^verbatim>\<open>false\<close> and the world is the one it started in: nothing
  was written to any socket, the clock was not read, the registry is unchanged.
\<close>

theorem send_absent_or_not_open:
  "(case getConnection i w of None \<Rightarrow> True | Some c \<Rightarrow> readyState (sockets w (ws c)) \<noteq> 1)
   \<Longrightarrow> send JSON_stringify i message w = (Inr False, w)"
  by (simp add: send_def getConnection_def split: option.splits)

theorem send_absent_or_not_open_witness:
  "send stringify_example ''c'' \<lparr>type = ''x'', data = 1, timestamp = None\<rparr>
     (example_world [conn ''a'' 1, conn ''c'' 3])
   = (Inr False, example_world [conn ''a'' 1, conn ''c'' 3])"
  using send_absent_or_not_open [where i = "''c''"
      and w = "example_world [conn ''a'' 1, conn ''c'' 3]"
      and JSON_stringify = stringify_example
      and message = "\<lparr>type = ''x'', data = 1, timestamp = None\<rparr>"]
  by (simp add: getConnection_def example_world_def conn_def example_sockets_def)

text \<open>
  C4. When the id is registered, the channel is open and the channel's \<^verbatim>\<open>send\<close> throws,
  \<^verbatim>\<open>send\<close> of the manager returns \<^verbatim>\<open>false\<close> as a value (no exception leaves it), and
  the connection stays in the registry: \<^verbatim>\<open>getConnection\<close> still finds it and \<^verbatim>\<open>size\<close>
  is what it was.
\<close>

theorem send_write_failure:
  assumes "getConnection i w = Some c"
    and "readyState (sockets w (ws c)) = 1"
    and "send_throws (sockets w (ws c))"
  shows "fst (send JSON_stringify i message w) = Inr False
       \<and> getConnection i (snd (send JSON_stringify i message w)) = Some c
       \<and> size' (snd (send JSON_stringify i message w)) = size' w
       \<and> connections (snd (send JSON_stringify i message w)) = connections w"
  using assms
  by (simp add: send_def send_try_def getConnection_def size'_def ws_send_def console_error_def
      timestamp_or_now_def Date_now_def split: option.splits prod.splits sum.splits)

theorem send_write_failure_witness:
  "fst (send stringify_example ''b'' \<lparr>type = ''x'', data = 1, timestamp = None\<rparr>
          (example_world [conn ''a'' 1, conn ''b'' 2])) = Inr False
   \<and> getConnection ''b'' (snd (send stringify_example ''b''
          \<lparr>type = ''x'', data = 1, timestamp = None\<rparr>
          (example_world [conn ''a'' 1, conn ''b'' 2]))) = Some (snd (conn ''b'' 2))
   \<and> size' (snd (send stringify_example ''b'' \<lparr>type = ''x'', data = 1, timestamp = None\<rparr>
          (example_world [conn ''a'' 1, conn ''b'' 2]))) = 2"
  using send_write_failure [where i = "''b''"
      and w = "example_world [conn ''a'' 1, conn ''b'' 2]"
      and c = "snd (conn ''b'' 2)"
      and JSON_stringify = stringify_example
      and message = "\<lparr>type = ''x'', data = 1, timestamp = None\<rparr>"]
  by (simp add: getConnection_def example_world_def conn_def example_sockets_def size'_def
      Map_size_def)

subsection \<open>addConnection and getConnection\<close>

text \<open>
  C7. \<^verbatim>\<open>addConnection\<close> returns a record, and \<^verbatim>\<open>getConnection\<close> on the returned id,
  right after, gives that record back: its channel and metadata are the arguments, its
  id is the one \<^verbatim>\<open>randomUUID\<close> produced.
\<close>

theorem addConnection_then_getConnection:
  "(let (c, w') = addConnection s md w
    in getConnection (id' c) w' = Some c \<and> ws c = s \<and> metadata c = md
       \<and> id' c = uuids w (uuid_calls w))"
  by (simp add: addConnection_def randomUUID_def getConnection_def Map_get_Map_set_same Let_def)

theorem addConnection_then_getConnection_witness:
  "(let (c, w') = addConnection 7 (Some ()) (example_world [conn ''a'' 1])
    in getConnection (id' c) w' = Some c \<and> ws c = 7 \<and> metadata c = Some ()
       \<and> id' c = ''uuid-0'')"
  using addConnection_then_getConnection [where s = 7 and md = "Some ()"
      and w = "example_world [conn ''a'' 1]"]
  by (simp add: example_world_def decimal.simps)

subsection \<open>disconnect\<close>

text \<open>
  C8. For an id that is not registered \<^verbatim>\<open>disconnect\<close> returns \<^verbatim>\<open>false\<close> and changes
  nothing. For a registered id whose channel closes without error it calls \<^verbatim>\<open>close\<close> on
  the channel once, removes the entry (\<^verbatim>\<open>getConnection\<close> no longer finds the id, and the
  registry is the one before without the entries of that id, every other entry kept in
  its place) and returns \<^verbatim>\<open>true\<close>. When \<^verbatim>\<open>close\<close> throws, the error is caught and the result is
  \<^verbatim>\<open>false\<close>.
\<close>

theorem disconnect_outcomes:
  "(case getConnection i w of
      None \<Rightarrow> disconnect i w = (Inr False, w)
    | Some c \<Rightarrow>
        if close_throws (sockets w (ws c))
        then fst (disconnect i w) = Inr False
        else fst (disconnect i w) = Inr True
           \<and> getConnection i (snd (disconnect i w)) = None
           \<and> connections (snd (disconnect i w)) = filter (\<lambda>e. fst e \<noteq> i) (connections w)
           \<and> close_attempts (trace (snd (disconnect i w))) = close_attempts (trace w) @ [ws c])"
  by (simp add: disconnect_def disconnect_try_def getConnection_def ws_close_def
      console_error_def Map_delete_def Map_get_filter_same close_attempts_append
      split: option.splits)

theorem disconnect_outcomes_witness:
  "disconnect ''zz'' (example_world [conn ''a'' 1, conn ''d'' 4])
     = (Inr False, example_world [conn ''a'' 1, conn ''d'' 4])
   \<and> fst (disconnect ''d'' (example_world [conn ''a'' 1, conn ''d'' 4])) = Inr False
   \<and> fst (disconnect ''a'' (example_world [conn ''a'' 1, conn ''d'' 4])) = Inr True
   \<and> getConnection ''a'' (snd (disconnect ''a'' (example_world [conn ''a'' 1, conn ''d'' 4]))) = None
   \<and> connections (snd (disconnect ''a'' (example_world [conn ''a'' 1, conn ''d'' 4])))
       = [conn ''d'' 4]
   \<and> close_attempts (trace (snd (disconnect ''a'' (example_world [conn ''a'' 1, conn ''d'' 4])))) = [1]"
  using disconnect_outcomes [where i = "''zz''" and w = "example_world [conn ''a'' 1, conn ''d'' 4]"]
    disconnect_outcomes [where i = "''d''" and w = "example_world [conn ''a'' 1, conn ''d'' 4]"]
    disconnect_outcomes [where i = "''a''" and w = "example_world [conn ''a'' 1, conn ''d'' 4]"]
  by (simp add: getConnection_def example_world_def conn_def example_sockets_def)

text \<open>
  C10. When \<^verbatim>\<open>close\<close> throws, \<^verbatim>\<open>disconnect\<close> returns \<^verbatim>\<open>false\<close> and the entry is still
  registered: \<^verbatim>\<open>getConnection\<close> returns the same record and \<^verbatim>\<open>size\<close> is unchanged.
\<close>

theorem disconnect_close_failure:
  assumes "getConnection i w = Some c"
    and "close_throws (sockets w (ws c))"
  shows "fst (disconnect i w) = Inr False
       \<and> getConnection i (snd (disconnect i w)) = Some c
       \<and> size' (snd (disconnect i w)) = size' w
       \<and> connections (snd (disconnect i w)) = connections w"
  using assms
  by (simp add: disconnect_def disconnect_try_def getConnection_def ws_close_def
      console_error_def size'_def)

theorem disconnect_close_failure_witness:
  "fst (disconnect ''d'' (example_world [conn ''a'' 1, conn ''d'' 4])) = Inr False
   \<and> getConnection ''d'' (snd (disconnect ''d'' (example_world [conn ''a'' 1, conn ''d'' 4])))
       = Some (snd (conn ''d'' 4))
   \<and> size' (snd (disconnect ''d'' (example_world [conn ''a'' 1, conn ''d'' 4]))) = 2"
  using disconnect_close_failure [where i = "''d''" and c = "snd (conn ''d'' 4)"
      and w = "example_world [conn ''a'' 1, conn ''d'' 4]"]
  by (simp add: getConnection_def example_world_def conn_def example_sockets_def size'_def
      Map_size_def)

subsection \<open>clear\<close>

lemma clear_each_sockets: "sockets (clear_each e w) = sockets w"
  by (simp add: clear_each_def ws_close_def)

lemma clear_each_close_attempts:
  "close_attempts (trace (clear_each e w)) = close_attempts (trace w) @ [ws (snd e)]"
  by (simp add: clear_each_def ws_close_def close_attempts_append)

lemma forEach_clear_each:
  "close_attempts (trace (forEach clear_each m w)) = close_attempts (trace w) @ map (\<lambda>e. ws (snd e)) m"
  by (induction m arbitrary: w) (simp_all add: clear_each_close_attempts)

text \<open>
  C9. \<^verbatim>\<open>clear\<close> calls \<^verbatim>\<open>close\<close> once for every registered connection, in registry
  order, whether or not earlier calls threw, and leaves the registry empty: \<^verbatim>\<open>size\<close> is 0.
\<close>

theorem clear_closes_all:
  "size' (clear w) = 0
   \<and> close_attempts (trace (clear w))
       = close_attempts (trace w) @ map (\<lambda>e. ws (snd e)) (connections w)"
  by (simp add: clear_def size'_def Map_size_def forEach_clear_each)

theorem clear_closes_all_witness:
  "size' (clear (example_world [conn ''a'' 1, conn ''d'' 4, conn ''c'' 3])) = 0
   \<and> close_attempts (trace (clear (example_world [conn ''a'' 1, conn ''d'' 4, conn ''c'' 3])))
       = [1, 4, 3]"
  using clear_closes_all [where w = "example_world [conn ''a'' 1, conn ''d'' 4, conn ''c'' 3]"]
  by (simp add: example_world_def conn_def)

subsection \<open>broadcast\<close>

lemma broadcast_each_frame:
  "sockets (broadcast_each p ex e w) = sockets w"
  "connections (broadcast_each p ex e w) = connections w"
  "clock_reads (broadcast_each p ex e w) = clock_reads w"
  by (simp_all add: broadcast_each_def ws_send_def console_error_def Let_def)

lemma broadcast_each_write_attempts:
  "write_attempts (trace (broadcast_each p ex e w))
   = write_attempts (trace w)
     @ (if \<not> List.member ex (fst e) \<and> readyState (sockets w (ws (snd e))) = 1
        then [(ws (snd e), p)] else [])"
  by (simp add: broadcast_each_def ws_send_def console_error_def Let_def write_attempts_append)

lemma broadcast_each_delivered:
  "delivered (trace (broadcast_each p ex e w))
   = delivered (trace w)
     @ (if \<not> List.member ex (fst e) \<and> readyState (sockets w (ws (snd e))) = 1
           \<and> \<not> send_throws (sockets w (ws (snd e)))
        then [(ws (snd e), p)] else [])"
  by (simp add: broadcast_each_def ws_send_def console_error_def Let_def delivered_append)

lemma forEach_broadcast_each_frame:
  "sockets (forEach (broadcast_each p ex) m w) = sockets w"
  "connections (forEach (broadcast_each p ex) m w) = connections w"
  "clock_reads (forEach (broadcast_each p ex) m w) = clock_reads w"
  by (induction m arbitrary: w) (simp_all add: broadcast_each_frame)

lemma forEach_broadcast_each_write_attempts:
  "write_attempts (trace (forEach (broadcast_each p ex) m w))
   = write_attempts (trace w)
     @ map (\<lambda>e. (ws (snd e), p))
         (filter (\<lambda>e. \<not> List.member ex (fst e) \<and> readyState (sockets w (ws (snd e))) = 1) m)"
  by (induction m arbitrary: w)
     (simp_all add: broadcast_each_frame broadcast_each_write_attempts)

lemma forEach_broadcast_each_delivered:
  "delivered (trace (forEach (broadcast_each p ex) m w))
   = delivered (trace w)
     @ map (\<lambda>e. (ws (snd e), p))
         (filter (\<lambda>e. \<not> send_throws (sockets w (ws (snd e))))
           (filter (\<lambda>e. \<not> List.member ex (fst e) \<and> readyState (sockets w (ws (snd e))) = 1) m))"
  by (induction m arbitrary: w)
     (simp_all add: broadcast_each_frame broadcast_each_delivered)

lemma timestamp_or_now_frame:
  "sockets (snd (timestamp_or_now message w)) = sockets w"
  "connections (snd (timestamp_or_now message w)) = connections w"
  "trace (snd (timestamp_or_now message w)) = trace w"
  by (simp_all add: timestamp_or_now_def Date_now_def split: option.splits)

lemma recipients_timestamp_or_now:
  "recipients exclude (snd (timestamp_or_now message w)) = recipients exclude w"
  by (simp add: recipients_def timestamp_or_now_frame)

text \<open>
  The claim C1 as worded, for every envelope, fails: \<^verbatim>\<open>broadcast\<close> serialises before
  the loop and outside any \<^verbatim>\<open>try\<close>, so for an envelope whose data is a BigInt the
  TypeError leaves \<^verbatim>\<open>broadcast\<close> and neither of two open, non-excluded connections is
  written to. (\<^verbatim>\<open>send\<close> on the same envelope catches the error and returns \<^verbatim>\<open>false\<close>.)
\<close>

theorem broadcast_unserialisable_counterexample:
  "recipients [] (example_world [conn ''a'' 1, conn ''e'' 5]) = [conn ''a'' 1, conn ''e'' 5]
   \<and> fst (broadcast stringify_number \<lparr>type = ''x'', data = JSBigInt 1, timestamp = None\<rparr> []
         (example_world [conn ''a'' 1, conn ''e'' 5])) = Inl TypeError
   \<and> write_attempts (trace (snd (broadcast stringify_number
         \<lparr>type = ''x'', data = JSBigInt 1, timestamp = None\<rparr> []
         (example_world [conn ''a'' 1, conn ''e'' 5])))) = []
   \<and> fst (send stringify_number ''a'' \<lparr>type = ''x'', data = JSBigInt 1, timestamp = None\<rparr>
         (example_world [conn ''a'' 1, conn ''e'' 5])) = Inr False"
  by (simp add: recipients_def broadcast_def send_def send_try_def timestamp_or_now_def
      Date_now_def console_error_def stringify_number_def example_world_def conn_def
      example_sockets_def)

text \<open>
  C1, amended. For an envelope that serialises, \<^verbatim>\<open>broadcast\<close> returns without an exception and
  calls \<^verbatim>\<open>ws.send\<close> with the payload once for each connection that is not excluded and
  is open, in registry order, and for no other. A call that throws is caught: the frames
  written are those of all the recipients whose \<^verbatim>\<open>send\<close> does not throw, the ones after a
  failing recipient included. The registry is unchanged.
\<close>

theorem broadcast_delivery:
  assumes "JSON_stringify (message\<lparr>timestamp := Some (fst (timestamp_or_now message w))\<rparr>)
           = Some payload"
  shows "fst (broadcast JSON_stringify message exclude w) = Inr ()
       \<and> write_attempts (trace (snd (broadcast JSON_stringify message exclude w)))
           = write_attempts (trace w) @ map (\<lambda>e. (ws (snd e), payload)) (recipients exclude w)
       \<and> delivered (trace (snd (broadcast JSON_stringify message exclude w)))
           = delivered (trace w)
             @ map (\<lambda>e. (ws (snd e), payload))
                 (filter (\<lambda>e. \<not> send_throws (sockets w (ws (snd e)))) (recipients exclude w))
       \<and> connections (snd (broadcast JSON_stringify message exclude w)) = connections w"
proof -
  obtain t w1 where tw: "timestamp_or_now message w = (t, w1)"
    by (cases "timestamp_or_now message w")
  have fr: "sockets w1 = sockets w" "connections w1 = connections w" "trace w1 = trace w"
    using timestamp_or_now_frame [of message w] tw by simp_all
  have js: "JSON_stringify (message\<lparr>timestamp := Some t\<rparr>) = Some payload"
    using assms tw by simp
  have b: "broadcast JSON_stringify message exclude w
           = (Inr (), forEach (broadcast_each payload exclude) (connections w1) w1)"
    by (simp add: broadcast_def tw js)
  show ?thesis
    by (simp add: b forEach_broadcast_each_write_attempts forEach_broadcast_each_delivered
        forEach_broadcast_each_frame fr recipients_def)
qed


theorem broadcast_delivery_witness:
  "fst (broadcast stringify_example \<lparr>type = ''x'', data = 1, timestamp = None\<rparr> [''f'']
         (example_world [conn ''a'' 1, conn ''b'' 2, conn ''c'' 3, conn ''e'' 5, conn ''f'' 6]))
     = Inr ()
   \<and> write_attempts (trace (snd (broadcast stringify_example
         \<lparr>type = ''x'', data = 1, timestamp = None\<rparr> [''f'']
         (example_world [conn ''a'' 1, conn ''b'' 2, conn ''c'' 3, conn ''e'' 5, conn ''f'' 6]))))
     = [(1, ''{type:x,data:1,timestamp:1700000000000}''),
        (2, ''{type:x,data:1,timestamp:1700000000000}''),
        (5, ''{type:x,data:1,timestamp:1700000000000}'')]
   \<and> delivered (trace (snd (broadcast stringify_example
         \<lparr>type = ''x'', data = 1, timestamp = None\<rparr> [''f'']
         (example_world [conn ''a'' 1, conn ''b'' 2, conn ''c'' 3, conn ''e'' 5, conn ''f'' 6]))))
     = [(1, ''{type:x,data:1,timestamp:1700000000000}''),
        (5, ''{type:x,data:1,timestamp:1700000000000}'')]"
  using broadcast_delivery [where JSON_stringify = stringify_example
      and message = "\<lparr>type = ''x'', data = 1, timestamp = None\<rparr>"
      and exclude = "[''f'']"
      and payload = "''{type:x,data:1,timestamp:1700000000000}''"
      and w = "example_world [conn ''a'' 1, conn ''b'' 2, conn ''c'' 3, conn ''e'' 5, conn ''f'' 6]"]
  by (simp add: example_world_def conn_def example_sockets_def stringify_example_def
      show_int_def decimal.simps timestamp_or_now_def Date_now_def recipients_def)

text \<open>
  The claim C6 as worded fails: with two open recipients and a clock that advances at
  every reading, \<^verbatim>\<open>broadcast\<close> reads the clock once and both frames carry the first
  reading, where a stamping for each recipient reads it twice and gives the second frame
  the later reading.
\<close>

theorem broadcast_stamps_each_recipient_counterexample:
  "trace (snd (broadcast stringify_example \<lparr>type = ''x'', data = 1, timestamp = None\<rparr> []
         (example_world [conn ''a'' 1, conn ''e'' 5])))
     = [Sent 1 ''{type:x,data:1,timestamp:1700000000000}'',
        Sent 5 ''{type:x,data:1,timestamp:1700000000000}'']
   \<and> clock_reads (snd (broadcast stringify_example
         \<lparr>type = ''x'', data = 1, timestamp = None\<rparr> []
         (example_world [conn ''a'' 1, conn ''e'' 5]))) = 1
   \<and> trace (broadcast_stamping_each_recipient stringify_example
         \<lparr>type = ''x'', data = 1, timestamp = None\<rparr> []
         (example_world [conn ''a'' 1, conn ''e'' 5]))
     = [Sent 1 ''{type:x,data:1,timestamp:1700000000000}'',
        Sent 5 ''{type:x,data:1,timestamp:1700000000001}'']
   \<and> trace (snd (broadcast stringify_example \<lparr>type = ''x'', data = 1, timestamp = None\<rparr> []
         (example_world [conn ''a'' 1, conn ''e'' 5])))
     \<noteq> trace (broadcast_stamping_each_recipient stringify_example
         \<lparr>type = ''x'', data = 1, timestamp = None\<rparr> []
         (example_world [conn ''a'' 1, conn ''e'' 5]))"
  by (simp add: broadcast_def broadcast_each_def broadcast_stamping_each_recipient_def
      send_def send_try_def timestamp_or_now_def Date_now_def ws_send_def
      example_world_def conn_def example_sockets_def stringify_example_def show_int_def
      decimal.simps)

text \<open>
  C6, amended. For an envelope without a timestamp, \<^verbatim>\<open>broadcast\<close> stamps once, before the
  loop: the clock is read exactly once in the whole call, and every frame the call writes
  is the same text, the envelope serialised with that one reading.
\<close>

theorem broadcast_stamps_once:
  assumes "timestamp message = None"
    and "JSON_stringify (message\<lparr>timestamp := Some (clock w (clock_reads w))\<rparr>) = Some payload"
  shows "clock_reads (snd (broadcast JSON_stringify message exclude w)) = Suc (clock_reads w)
       \<and> map snd (drop (length (write_attempts (trace w)))
                    (write_attempts (trace (snd (broadcast JSON_stringify message exclude w)))))
           = replicate (length (recipients exclude w)) payload"
proof -
  let ?w1 = "w\<lparr>clock_reads := Suc (clock_reads w)\<rparr>"
  have tw: "timestamp_or_now message w = (clock w (clock_reads w), ?w1)"
    using assms(1) by (simp add: timestamp_or_now_def Date_now_def)
  have b: "broadcast JSON_stringify message exclude w
           = (Inr (), forEach (broadcast_each payload exclude) (connections ?w1) ?w1)"
    using assms(2) by (simp add: broadcast_def tw)
  have m: "map (snd \<circ> (\<lambda>e. (ws (snd e), payload))) xs = replicate (length xs) payload"
    for xs :: "(string \<times> 'b WSConnection) list"
    by (induction xs) simp_all
  show ?thesis
    by (simp add: b forEach_broadcast_each_write_attempts forEach_broadcast_each_frame
        recipients_def m)
qed

theorem broadcast_stamps_once_witness:
  "clock_reads (snd (broadcast stringify_example \<lparr>type = ''x'', data = 1, timestamp = None\<rparr> []
         (example_world [conn ''a'' 1, conn ''e'' 5]))) = 1
   \<and> map snd (write_attempts (trace (snd (broadcast stringify_example
         \<lparr>type = ''x'', data = 1, timestamp = None\<rparr> []
         (example_world [conn ''a'' 1, conn ''e'' 5])))))
     = [''{type:x,data:1,timestamp:1700000000000}'', ''{type:x,data:1,timestamp:1700000000000}'']"
  using broadcast_stamps_once [where JSON_stringify = stringify_example
      and message = "\<lparr>type = ''x'', data = 1, timestamp = None\<rparr>"
      and exclude = "[]"
      and payload = "''{type:x,data:1,timestamp:1700000000000}''"
      and w = "example_world [conn ''a'' 1, conn ''e'' 5]"]
  by (simp add: example_world_def conn_def example_sockets_def stringify_example_def
      show_int_def decimal.simps recipients_def)

subsection \<open>The timestamp on the wire\<close>

text \<open>
  What \<^verbatim>\<open>message.timestamp || Date.now()\<close> yields: a supplied timestamp other than 0 is
  kept and the clock is not read; an omitted one is replaced by the reading of the clock
  taken in this call.
\<close>

lemma timestamp_or_now_supplied:
  "timestamp message = Some t \<Longrightarrow> t \<noteq> 0 \<Longrightarrow> timestamp_or_now message w = (t, w)"
  by (simp add: timestamp_or_now_def)

lemma timestamp_or_now_omitted:
  "timestamp message = None \<Longrightarrow>
   timestamp_or_now message w
   = (clock w (clock_reads w), w\<lparr>clock_reads := Suc (clock_reads w)\<rparr>)"
  by (simp add: timestamp_or_now_def Date_now_def)

lemma timestamp_or_now_zero:
  "timestamp message = Some 0 \<Longrightarrow>
   timestamp_or_now message w
   = (clock w (clock_reads w), w\<lparr>clock_reads := Suc (clock_reads w)\<rparr>)"
  by (simp add: timestamp_or_now_def Date_now_def)

text \<open>
  C2. An envelope with the timestamp 0 sent to an open connection, when the clock reads
  1700000000000: the frame written by \<^verbatim>\<open>send\<close>, and by \<^verbatim>\<open>broadcast\<close>, carries
  1700000000000, not the 0 the caller supplied.
\<close>

theorem timestamp_zero_replaced:
  "trace (snd (send stringify_example ''a'' \<lparr>type = ''x'', data = 1, timestamp = Some 0\<rparr>
       (example_world [conn ''a'' 1])))
     = [Sent 1 ''{type:x,data:1,timestamp:1700000000000}'']
   \<and> trace (snd (broadcast stringify_example \<lparr>type = ''x'', data = 1, timestamp = Some 0\<rparr> []
       (example_world [conn ''a'' 1])))
     = [Sent 1 ''{type:x,data:1,timestamp:1700000000000}'']
   \<and> stringify_example \<lparr>type = ''x'', data = 1, timestamp = Some 0\<rparr>
     = Some ''{type:x,data:1,timestamp:0}''"
  by (simp add: send_def send_try_def broadcast_def broadcast_each_def timestamp_or_now_def
      Date_now_def ws_send_def example_world_def conn_def example_sockets_def
      stringify_example_def show_int_def decimal.simps)

subsection \<open>Sequences of add, remove and disconnect\<close>

lemma length_filter_key:
  assumes "distinct (map fst m)"
  shows "length (filter (\<lambda>e. fst e \<noteq> k) m) + (if Map_has m k then 1 else 0) = length m"
proof (cases "Map_get m k")
  case None
  then show ?thesis by (simp add: Map_has_def filter_absent)
next
  case (Some v)
  with assms have "Suc (length (filter (\<lambda>e. fst e \<noteq> k) m)) = length m"
    by (rule length_filter_present)
  with Some show ?thesis by (simp add: Map_has_def)
qed

lemma removeConnection_absent: "getConnection i w = None \<Longrightarrow> removeConnection i w = (False, w)"
  by (simp add: removeConnection_def Map_delete_def Map_has_def getConnection_def filter_absent)

lemma disconnect_absent: "getConnection i w = None \<Longrightarrow> disconnect i w = (Inr False, w)"
  by (simp add: disconnect_def getConnection_def)

lemma removeConnection_twice: "fst (removeConnection i (snd (removeConnection i w))) = False"
  by (simp add: removeConnection_def Map_delete_def Map_has_def Map_get_filter_same)

lemma removeConnection_effect:
  assumes "removeConnection i w = (b, w1)"
  shows "uuids w1 = uuids w" "uuid_calls w1 = uuid_calls w"
    "connections w1 = filter (\<lambda>e. fst e \<noteq> i) (connections w)"
    "b = Map_has (connections w) i"
  using assms by (auto simp: removeConnection_def Map_delete_def)

lemma disconnect_effect:
  assumes "disconnect i w = (b, w1)"
  shows "uuids w1 = uuids w" "uuid_calls w1 = uuid_calls w"
    "connections w1 = (if b = Inr True then filter (\<lambda>e. fst e \<noteq> i) (connections w)
                        else connections w)"
    "b = Inr True \<Longrightarrow> Map_has (connections w) i"
  using assms
  by (auto simp: disconnect_def disconnect_try_def ws_close_def console_error_def
      Map_delete_def Map_has_def split: option.splits if_splits)

lemma addConnection_effect:
  assumes "addConnection s md w = (c, w1)"
  shows "uuids w1 = uuids w" "uuid_calls w1 = Suc (uuid_calls w)"
    "connections w1 = Map_set (uuids w (uuid_calls w)) c (connections w)"
  using assms by (auto simp: addConnection_def randomUUID_def Let_def)

lemma keys_filter_subset: "fst ` set (filter P m) \<subseteq> fst ` set m"
  by auto

lemma run_size:
  assumes "distinct (map fst (connections w))"
    and "fst ` set (connections w) \<subseteq> uuids w ` {lo..<uuid_calls w}"
    and "run ops w = (a, r, w')"
    and "inj_on (uuids w) {lo..<uuid_calls w + a}"
    and "lo \<le> uuid_calls w"
  shows "size' w' + r = size' w + a"
  using assms
proof (induction ops arbitrary: w a r w')
  case Nil
  then show ?case by simp
next
  case (Cons x ops)
  show ?case
  proof (cases x)
    case (AddConnection s md)
    obtain c w1 where add: "addConnection s md w = (c, w1)"
      by (cases "addConnection s md w")
    obtain a0 r0 w0 where rest: "run ops w1 = (a0, r0, w0)"
      by (cases "run ops w1") auto
    from Cons.prems(3) AddConnection add rest
    have res: "a = Suc a0" "r = r0" "w' = w0" by simp_all
    note eff = addConnection_effect [OF add]
    let ?n = "uuid_calls w"
    have inj: "inj_on (uuids w) {lo..<?n + Suc a0}"
      using Cons.prems(4) res by simp
    have fresh: "uuids w ?n \<notin> fst ` set (connections w)"
    proof
      assume "uuids w ?n \<in> fst ` set (connections w)"
      with Cons.prems(2) obtain j where j: "j \<in> {lo..<?n}" "uuids w j = uuids w ?n"
        by auto
      from j(1) have "j \<in> {lo..<?n + Suc a0}" "?n \<in> {lo..<?n + Suc a0}" by auto
      with inj j(2) have "j = ?n" by (auto dest: inj_onD)
      with j(1) show False by simp
    qed
    then have none: "Map_get (connections w) (uuids w ?n) = None"
      by (simp add: Map_get_None_iff)
    have d1: "distinct (map fst (connections w1))"
      using Cons.prems(1) by (simp add: eff distinct_Map_set)
    have k1: "fst ` set (connections w1) \<subseteq> uuids w1 ` {lo..<uuid_calls w1}"
    proof -
      from Cons.prems(5) have "{lo..<Suc ?n} = insert ?n {lo..<?n}" by auto
      with Cons.prems(2) show ?thesis by (auto simp: eff keys_Map_set)
    qed
    have l1: "lo \<le> uuid_calls w1"
      using Cons.prems(5) by (simp add: eff)
    have i1: "inj_on (uuids w1) {lo..<uuid_calls w1 + a0}"
      using inj by (simp add: eff)
    from Cons.IH [OF d1 k1 rest i1 l1] have "size' w0 + r0 = size' w1 + a0" .
    moreover have "size' w1 = Suc (size' w)"
      by (simp add: size'_def Map_size_def eff length_Map_set_absent [OF none])
    ultimately show ?thesis using res by simp
  next
    case (RemoveConnection i)
    obtain b w1 where rm: "removeConnection i w = (b, w1)"
      by (cases "removeConnection i w")
    obtain a0 r0 w0 where rest: "run ops w1 = (a0, r0, w0)"
      by (cases "run ops w1") auto
    from Cons.prems(3) RemoveConnection rm rest
    have res: "a = a0" "r = (if b then Suc r0 else r0)" "w' = w0" by simp_all
    note eff = removeConnection_effect [OF rm]
    have d1: "distinct (map fst (connections w1))"
      using Cons.prems(1) by (simp add: eff distinct_map_filter)
    have k1: "fst ` set (connections w1) \<subseteq> uuids w1 ` {lo..<uuid_calls w1}"
      using Cons.prems(2) by (auto simp: eff)
    have i1: "inj_on (uuids w1) {lo..<uuid_calls w1 + a0}"
      using Cons.prems(4) res by (simp add: eff)
    have l1: "lo \<le> uuid_calls w1"
      using Cons.prems(5) by (simp add: eff)
    from Cons.IH [OF d1 k1 rest i1 l1] have "size' w0 + r0 = size' w1 + a0" .
    moreover have "size' w1 + (if b then 1 else 0) = size' w"
      using length_filter_key [OF Cons.prems(1), of i]
      by (simp add: size'_def Map_size_def eff)
    ultimately show ?thesis using res by (simp split: if_splits)
  next
    case (Disconnect i)
    obtain b w1 where dc: "disconnect i w = (b, w1)"
      by (cases "disconnect i w")
    obtain a0 r0 w0 where rest: "run ops w1 = (a0, r0, w0)"
      by (cases "run ops w1") auto
    from Cons.prems(3) Disconnect dc rest
    have res: "a = a0" "r = (if b = Inr True then Suc r0 else r0)" "w' = w0" by simp_all
    note eff = disconnect_effect [OF dc]
    have d1: "distinct (map fst (connections w1))"
      using Cons.prems(1) by (simp add: eff(3) distinct_map_filter)
    have k1: "fst ` set (connections w1) \<subseteq> uuids w1 ` {lo..<uuid_calls w1}"
      using Cons.prems(2) by (auto simp: eff(1,2,3))
    have i1: "inj_on (uuids w1) {lo..<uuid_calls w1 + a0}"
      using Cons.prems(4) res by (simp add: eff(1,2))
    have l1: "lo \<le> uuid_calls w1"
      using Cons.prems(5) by (simp add: eff(2))
    from Cons.IH [OF d1 k1 rest i1 l1] have "size' w0 + r0 = size' w1 + a0" .
    moreover have "size' w1 + (if b = Inr True then 1 else 0) = size' w"
      using length_filter_key [OF Cons.prems(1), of i] eff(4)
      by (cases "b = Inr True") (simp_all add: size'_def Map_size_def eff(3))
    ultimately show ?thesis using res by (simp split: if_splits)
  qed
qed

text \<open>
  C5. Start from an empty registry and perform any sequence of \<^verbatim>\<open>addConnection\<close>,
  \<^verbatim>\<open>removeConnection\<close> and \<^verbatim>\<open>disconnect\<close> calls, the identifiers \<^verbatim>\<open>randomUUID\<close> hands
  out during the run being pairwise distinct. Then \<^verbatim>\<open>size\<close> is the number of adds minus
  the number of removals and disconnects that returned \<^verbatim>\<open>true\<close>. Removing or
  disconnecting an id that is not registered returns \<^verbatim>\<open>false\<close> and changes nothing, and
  a second removal of the same id returns \<^verbatim>\<open>false\<close>.
\<close>

theorem size_counts_adds_minus_removals:
  assumes "connections w = []"
    and "run ops w = (a, r, w')"
    and "distinct (map (uuids w) [uuid_calls w..<uuid_calls w + a])"
  shows "int (size' w') = int a - int r
       \<and> (\<forall>i v. getConnection i (v :: 'm world) = None
              \<longrightarrow> removeConnection i v = (False, v) \<and> disconnect i v = (Inr False, v))
       \<and> (\<forall>i v. fst (removeConnection i (snd (removeConnection i (v :: 'm world)))) = False)"
proof -
  have "inj_on (uuids w) {uuid_calls w..<uuid_calls w + a}"
    using assms(3) by (simp add: distinct_map)
  with assms(1,2) have "size' w' + r = size' w + a"
    by (intro run_size [where lo = "uuid_calls w"]) simp_all
  with assms(1) have "int (size' w') = int a - int r"
    by (simp add: size'_def Map_size_def)
  then show ?thesis
    by (simp add: removeConnection_absent disconnect_absent removeConnection_twice)
qed

theorem size_counts_adds_minus_removals_witness:
  "run [AddConnection 1 None, AddConnection 4 None, AddConnection 5 None,
        RemoveConnection ''uuid-0'', RemoveConnection ''uuid-0'', Disconnect ''uuid-1'',
        Disconnect ''uuid-2'', Disconnect ''uuid-2'', RemoveConnection ''nobody'']
     (example_world [])
   = (3, 2,
      \<lparr>connections = [conn ''uuid-1'' 4], sockets = example_sockets,
       uuids = (\<lambda>n. ''uuid-'' @ decimal n), uuid_calls = 3,
       clock = (\<lambda>n. 1700000000000 + int n), clock_reads = 0,
       trace = [CloseThrew 4, ConsoleError ''Failed to disconnect uuid-1:'', Closed 5]\<rparr>)
   \<and> size' \<lparr>connections = [conn ''uuid-1'' 4], sockets = example_sockets,
       uuids = (\<lambda>n. ''uuid-'' @ decimal n), uuid_calls = 3,
       clock = (\<lambda>n. 1700000000000 + int n), clock_reads = 0,
       trace = [CloseThrew 4, ConsoleError ''Failed to disconnect uuid-1:'', Closed 5]\<rparr>
     = 1
   \<and> removeConnection ''nobody'' (example_world [conn ''a'' 1])
     = (False, example_world [conn ''a'' 1])"
proof -
  have r: "run [AddConnection 1 None, AddConnection 4 None, AddConnection 5 None,
        RemoveConnection ''uuid-0'', RemoveConnection ''uuid-0'', Disconnect ''uuid-1'',
        Disconnect ''uuid-2'', Disconnect ''uuid-2'', RemoveConnection ''nobody'']
     (example_world [])
   = (3, 2,
      \<lparr>connections = [conn ''uuid-1'' 4], sockets = example_sockets,
       uuids = (\<lambda>n. ''uuid-'' @ decimal n), uuid_calls = 3,
       clock = (\<lambda>n. 1700000000000 + int n), clock_reads = 0,
       trace = [CloseThrew 4, ConsoleError ''Failed to disconnect uuid-1:'', Closed 5]\<rparr>)"
    by (simp add: addConnection_def randomUUID_def removeConnection_def disconnect_def
        disconnect_try_def ws_close_def console_error_def Map_delete_def Map_has_def
        example_world_def example_sockets_def conn_def decimal.simps Let_def)
  have e: "connections (example_world []) = []"
    by (simp add: example_world_def)
  have d: "distinct (map (uuids (example_world [])) [uuid_calls (example_world [])..<uuid_calls (example_world []) + 3])"
    by (simp add: example_world_def decimal.simps upt_rec)
  have g: "getConnection ''nobody'' (example_world [conn ''a'' 1]) = None"
    by (simp add: getConnection_def example_world_def conn_def)
  note t = size_counts_adds_minus_removals [OF e r d]
  from t have "int (size' \<lparr>connections = [conn ''uuid-1'' 4], sockets = example_sockets,
       uuids = (\<lambda>n. ''uuid-'' @ decimal n), uuid_calls = 3,
       clock = (\<lambda>n. 1700000000000 + int n), clock_reads = 0,
       trace = [CloseThrew 4, ConsoleError ''Failed to disconnect uuid-1:'', Closed 5]\<rparr>)
     = int 3 - int 2"
    by (rule conjunct1)
  then have s: "size' \<lparr>connections = [conn ''uuid-1'' 4], sockets = example_sockets,
       uuids = (\<lambda>n. ''uuid-'' @ decimal n), uuid_calls = 3,
       clock = (\<lambda>n. 1700000000000 + int n), clock_reads = 0,
       trace = [CloseThrew 4, ConsoleError ''Failed to disconnect uuid-1:'', Closed 5]\<rparr>
     = 1"
    by simp
  from t g have n: "removeConnection ''nobody'' (example_world [conn ''a'' 1])
     = (False, example_world [conn ''a'' 1])"
    by blast
  from r s n show ?thesis by blast
qed

end
